theory Spec2Isabelle
  imports Main
begin

section \<open>Strings and paths as the source uses them\<close>

text \<open>
  The source is Python on a POSIX host. Strings are \<open>str\<close>; paths are \<open>pathlib.Path\<close>
  objects. A path is kept the way pathlib keeps it after parsing: the root (\<open>''''\<close>,
  \<open>''/''\<close> or \<open>''//''\<close>) and the list of segments. Parsing drops empty segments and
  \<open>.\<close> segments and keeps \<open>..\<close> segments.
\<close>

record posix_path =
  anchor :: string
  tail :: "string list"

text \<open>\<open>str.split(sep)\<close> for a one-character separator.\<close>

fun str_split :: "char \<Rightarrow> string \<Rightarrow> string list" where
  "str_split sep [] = [[]]"
| "str_split sep (c # cs) =
     (if c = sep then [] # str_split sep cs
      else (case str_split sep cs of
              [] \<Rightarrow> [[c]]
            | w # ws \<Rightarrow> (c # w) # ws))"

text \<open>\<open>sep.join(xs)\<close>.\<close>

fun str_join :: "string \<Rightarrow> string list \<Rightarrow> string" where
  "str_join sep [] = []"
| "str_join sep [x] = x"
| "str_join sep (x # y # ys) = x @ sep @ str_join sep (y # ys)"

text \<open>\<open>s.replace(a, b)\<close> for one-character \<open>a\<close> and \<open>b\<close>.\<close>

definition str_replace :: "char \<Rightarrow> char \<Rightarrow> string \<Rightarrow> string" where
  "str_replace a b s = map (\<lambda>c. if c = a then b else c) s"

text \<open>\<open>Path(s)\<close>: the root is \<open>//\<close> for exactly two leading slashes, \<open>/\<close> for one or for
  three and more, and empty otherwise.\<close>

definition Path :: "string \<Rightarrow> posix_path" where
  "Path s =
     (let root = (if take 1 s \<noteq> ''/'' then ''''
                  else if take 1 (drop 1 s) \<noteq> ''/'' \<or> take 1 (drop 2 s) = ''/'' then ''/''
                  else ''//'');
          rel = drop (length root) s
      in \<lparr>anchor = root,
          tail = filter (\<lambda>x. x \<noteq> [] \<and> x \<noteq> ''.'') (str_split (CHR ''/'') rel)\<rparr>)"

text \<open>\<open>p.as_posix()\<close>: the empty path prints as \<open>.\<close>.\<close>

definition as_posix :: "posix_path \<Rightarrow> string" where
  "as_posix p =
     (if anchor p = [] \<and> tail p = [] then ''.''
      else anchor p @ str_join ''/'' (tail p))"

text \<open>\<open>p.name\<close>: the final segment, empty when the path has no segment.\<close>

definition path_name :: "posix_path \<Rightarrow> string" where
  "path_name p = (if tail p = [] then [] else last (tail p))"

section \<open>The data model of the dependency graph\<close>

text \<open>The loaders a Dependency can refer to; equality of loaders is by class.\<close>

datatype loader = NotebookLoader | FileLoader | FolderLoader

record dependency =
  loader :: loader
  path :: posix_path
  inherits_context :: bool

record dependency_problem =
  code :: string
  message :: string

record maybe_dependency =
  dependency :: "dependency option"
  problems :: "dependency_problem list"

text \<open>What \<open>KnownList.module_compatibility\<close> returns. The class is outside the
  modelled file; the allow-list is a parameter of the resolver.\<close>

record compatibility =
  known :: bool
  known_problems :: "dependency_problem list"

text \<open>The error an operating-system call raises.\<close>

datatype os_error = OSError

text \<open>
  \<open>PathLookup\<close>: the current directory and the resolution of a path. Both come from
  outside the modelled file. A call of \<open>resolve\<close> has three outcomes: it raises
  (\<open>Inl\<close>, for instance \<open>OSError\<close> on a file name that is too long), it returns \<open>None\<close>
  when nothing is found, or it returns the absolute path.
\<close>

record path_lookup =
  cwd :: posix_path
  resolve :: "posix_path \<Rightarrow> os_error + posix_path option"

section \<open>ImportFileResolver\<close>

text \<open>\<open>ImportFileResolver(file_loader, allow_list)\<close>.\<close>

datatype import_file_resolver =
  ImportFileResolver loader "string \<Rightarrow> compatibility"

text \<open>
  Every function that calls \<open>path_lookup.resolve\<close> threads a log: the paths handed to
  the lookup, in call order. The log is how a theorem can say which paths were probed
  and that none was. No function of the resolver catches an exception, so a result is
  either the exception that the lookup raised (\<open>Inl\<close>) or the value returned (\<open>Inr\<close>).
\<close>

type_synonym probes = "posix_path list"

definition private_fail :: "string \<Rightarrow> string \<Rightarrow> maybe_dependency" where
  "private_fail c m = \<lparr>dependency = None, problems = [\<lparr>code = c, message = m\<rparr>]\<rparr>"

text \<open>\<open>resolve_file\<close>. The two-argument \<open>Dependency(loader, path)\<close> takes the default of
  \<open>inherits_context\<close>, which is declared outside the modelled file: a parameter here.\<close>

definition resolve_file ::
  "bool \<Rightarrow> import_file_resolver \<Rightarrow> path_lookup \<Rightarrow> posix_path \<Rightarrow> probes
     \<Rightarrow> (os_error + maybe_dependency) \<times> probes" where
  "resolve_file default_inherits r pl p lg =
     (case r of ImportFileResolver file_loader allow_list \<Rightarrow>
        (case resolve pl p of
           Inl e \<Rightarrow> (Inl e, lg @ [p])
         | Inr (Some absolute_path) \<Rightarrow>
             (Inr \<lparr>dependency = Some \<lparr>loader = file_loader, path = absolute_path,
                                      inherits_context = default_inherits\<rparr>,
                   problems = []\<rparr>, lg @ [p])
         | Inr None \<Rightarrow>
             (Inr \<lparr>dependency = None,
                   problems = [\<lparr>code = ''file-not-found'',
                                message = ''File not found: '' @ as_posix p\<rparr>]\<rparr>, lg @ [p])))"

text \<open>\<open>_resolve_allow_list\<close>: \<open>None\<close> is Python's \<open>None\<close> (no result at all).\<close>

definition private_resolve_allow_list ::
  "import_file_resolver \<Rightarrow> string \<Rightarrow> maybe_dependency option" where
  "private_resolve_allow_list r name =
     (case r of ImportFileResolver file_loader allow_list \<Rightarrow>
        (let compat = allow_list name in
         if \<not> known compat then None
         else if known_problems compat = [] then Some \<lparr>dependency = None, problems = []\<rparr>
         else Some \<lparr>dependency = None, problems = known_problems compat\<rparr>))"

text \<open>The first loop of \<open>_resolve_import\<close>: \<open>i\<close> is the index of \<open>rune\<close>, the
  string argument is \<open>name[i:]\<close>, the last argument is \<open>parts\<close> so far.\<close>

fun import_parts :: "string \<Rightarrow> nat \<Rightarrow> string \<Rightarrow> string list \<Rightarrow> string list" where
  "import_parts cwd_posix i [] parts = parts"
| "import_parts cwd_posix i (rune # rest) parts =
     (if i = 0 \<and> rune = CHR ''.'' then import_parts cwd_posix (Suc i) rest (parts @ [cwd_posix])
      else if rune \<noteq> CHR ''.''
        then parts @ [str_replace (CHR ''.'') (CHR ''/'') (rune # rest)]
      else import_parts cwd_posix (Suc i) rest (parts @ [''..'']))"

text \<open>The second loop of \<open>_resolve_import\<close>, over the candidates.\<close>

fun probe_candidates ::
  "loader \<Rightarrow> path_lookup \<Rightarrow> string list \<Rightarrow> probes
     \<Rightarrow> (os_error + maybe_dependency option) \<times> probes" where
  "probe_candidates file_loader pl [] lg = (Inr None, lg)"
| "probe_candidates file_loader pl (candidate # cs) lg =
     (let relative_path = Path candidate in
      case resolve pl relative_path of
        Inl e \<Rightarrow> (Inl e, lg @ [relative_path])
      | Inr None \<Rightarrow> probe_candidates file_loader pl cs (lg @ [relative_path])
      | Inr (Some absolute_path) \<Rightarrow>
          (Inr (Some \<lparr>dependency = Some \<lparr>loader = file_loader, path = absolute_path,
                                          inherits_context = False\<rparr>,
                       problems = []\<rparr>), lg @ [relative_path]))"

definition private_resolve_import ::
  "import_file_resolver \<Rightarrow> path_lookup \<Rightarrow> string \<Rightarrow> probes
     \<Rightarrow> (os_error + maybe_dependency option) \<times> probes" where
  "private_resolve_import r pl name lg =
     (case r of ImportFileResolver file_loader allow_list \<Rightarrow>
        if name = [] then
          (Inr (Some \<lparr>dependency = None,
                      problems = [\<lparr>code = ''ucx-bug'',
                                   message = ''Import name is empty''\<rparr>]\<rparr>), lg)
        else
          (let parts = import_parts (as_posix (cwd pl)) 0 name [];
               joined = str_join ''/'' parts
           in probe_candidates file_loader pl [joined @ ''.py'', joined @ ''/__init__.py''] lg))"

definition resolve_import ::
  "import_file_resolver \<Rightarrow> path_lookup \<Rightarrow> string \<Rightarrow> probes
     \<Rightarrow> (os_error + maybe_dependency) \<times> probes" where
  "resolve_import r pl name lg =
     (case private_resolve_allow_list r name of
        Some maybe \<Rightarrow> (Inr maybe, lg)
      | None \<Rightarrow>
          (case private_resolve_import r pl name lg of
             (Inl e, lg') \<Rightarrow> (Inl e, lg')
           | (Inr (Some maybe), lg') \<Rightarrow> (Inr maybe, lg')
           | (Inr None, lg') \<Rightarrow>
               (Inr (private_fail ''import-not-found'' (''Could not locate import: '' @ name)),
                lg')))"

text \<open>
  The translation of an import name as the specification words it: the leading dots are
  counted, the first stands for the lookup directory, each further one for a parent step,
  and the rest of the name has its dots replaced by separators. It is compared with
  \<open>import_parts\<close> below.
\<close>

definition translate_import_name :: "string \<Rightarrow> string \<Rightarrow> string list" where
  "translate_import_name cwd_posix name =
     (let dots = length (takeWhile (\<lambda>c. c = CHR ''.'') name);
          remainder = drop dots name
      in (if dots = 0 then [] else cwd_posix # replicate (dots - 1) ''..'')
         @ (if remainder = [] then [] else [str_replace (CHR ''.'') (CHR ''/'') remainder]))"

text \<open>
  The location a path denotes, as the specification names locations: each \<open>..\<close> segment
  steps to the parent of the directory before it (\<open>os.path.normpath\<close>; it is where a file
  system arrives when no directory on the way is a symbolic link). At the root \<open>..\<close>
  stays at the root; a relative path keeps its leading \<open>..\<close> segments.
\<close>

fun collapse_parents :: "bool \<Rightarrow> string list \<Rightarrow> string list \<Rightarrow> string list" where
  "collapse_parents rooted seen [] = seen"
| "collapse_parents rooted seen (s # rest) =
     (if s = ''..'' then
        (if seen \<noteq> [] \<and> last seen \<noteq> ''..'' then collapse_parents rooted (butlast seen) rest
         else if rooted then collapse_parents rooted seen rest
         else collapse_parents rooted (seen @ [s]) rest)
      else collapse_parents rooted (seen @ [s]) rest)"

definition normpath :: "posix_path \<Rightarrow> posix_path" where
  "normpath p = \<lparr>anchor = anchor p, tail = collapse_parents (anchor p \<noteq> []) [] (tail p)\<rparr>"

section \<open>Folder\<close>

text \<open>
  What \<open>Folder\<close> asks of the file system: \<open>iterdir\<close> (\<open>None\<close> when listing raises
  \<open>OSError\<close>), \<open>is_file\<close> and \<open>is_a_notebook\<close>. All three live outside the modelled
  file.
\<close>

record file_system =
  iterdir :: "posix_path \<Rightarrow> posix_path list option"
  is_file :: "posix_path \<Rightarrow> bool"
  is_a_notebook :: "posix_path \<Rightarrow> bool"

text \<open>\<open>Folder(path, notebook_loader, file_loader, folder_loader)\<close>.\<close>

datatype folder = Folder posix_path loader loader loader

text \<open>
  \<open>DependencyGraph.register_dependency\<close> is outside the modelled file. It is a parameter
  \<open>reg\<close>: given a dependency and the parent graph it returns the problems of the
  registration and the graph after it. The loop of \<open>_build_dependency_graph\<close>:
\<close>

fun register_children ::
  "(dependency \<Rightarrow> 'g \<Rightarrow> dependency_problem list \<times> 'g) \<Rightarrow> file_system
     \<Rightarrow> loader \<Rightarrow> loader \<Rightarrow> loader \<Rightarrow> posix_path list \<Rightarrow> 'g
     \<Rightarrow> dependency_problem list \<times> 'g" where
  "register_children reg fs notebook_loader file_loader folder_loader [] parent = ([], parent)"
| "register_children reg fs notebook_loader file_loader folder_loader (child_path # rest) parent =
     (let is_file_v = is_file fs child_path;
          is_notebook = is_a_notebook fs child_path;
          ld = (if is_notebook then notebook_loader
                else if is_file_v then file_loader else folder_loader);
          dep = \<lparr>loader = ld, path = child_path, inherits_context = is_notebook\<rparr>;
          (yielded, parent1) = reg dep parent;
          (more, parent2) =
             register_children reg fs notebook_loader file_loader folder_loader rest parent1
      in (yielded @ more, parent2))"

definition private_build_dependency_graph ::
  "(dependency \<Rightarrow> 'g \<Rightarrow> dependency_problem list \<times> 'g) \<Rightarrow> file_system \<Rightarrow> folder \<Rightarrow> 'g
     \<Rightarrow> os_error + dependency_problem list \<times> 'g" where
  "private_build_dependency_graph reg fs fd parent =
     (case fd of Folder p notebook_loader file_loader folder_loader \<Rightarrow>
        (case iterdir fs p of
           None \<Rightarrow> Inl OSError
         | Some children \<Rightarrow>
             Inr (register_children reg fs notebook_loader file_loader folder_loader
                    children parent)))"

definition build_dependency_graph ::
  "(dependency \<Rightarrow> 'g \<Rightarrow> dependency_problem list \<times> 'g) \<Rightarrow> file_system \<Rightarrow> folder \<Rightarrow> 'g
     \<Rightarrow> os_error + dependency_problem list \<times> 'g" where
  "build_dependency_graph reg fs fd parent =
     (case fd of Folder p notebook_loader file_loader folder_loader \<Rightarrow>
        if path_name p \<in> {''__pycache__'', ''.git'', ''.github'', ''.venv'', ''.mypy_cache'',
                           ''site-packages''}
        then Inr ([], parent)
        else private_build_dependency_graph reg fs fd parent)"

text \<open>
  The registration of children as the claim words it: one dependency per child, its
  loader chosen by classification, and the dependencies registered one after the other.
\<close>

definition child_dependency ::
  "file_system \<Rightarrow> loader \<Rightarrow> loader \<Rightarrow> loader \<Rightarrow> posix_path \<Rightarrow> dependency" where
  "child_dependency fs notebook_loader file_loader folder_loader child =
     \<lparr>loader = (if is_a_notebook fs child then notebook_loader
                else if is_file fs child then file_loader else folder_loader),
      path = child,
      inherits_context = is_a_notebook fs child\<rparr>"

fun register_each ::
  "(dependency \<Rightarrow> 'g \<Rightarrow> dependency_problem list \<times> 'g) \<Rightarrow> dependency list \<Rightarrow> 'g
     \<Rightarrow> dependency_problem list \<times> 'g" where
  "register_each reg [] g = ([], g)"
| "register_each reg (d # ds) g =
     (let (ps, g1) = reg d g; (qs, g2) = register_each reg ds g1 in (ps @ qs, g2))"

text \<open>A parent graph that only records the dependencies registered on it, in call
  order; \<open>report\<close> gives the problems of each registration.\<close>

definition record_registration ::
  "(dependency \<Rightarrow> dependency_problem list) \<Rightarrow> dependency \<Rightarrow> dependency list
     \<Rightarrow> dependency_problem list \<times> dependency list" where
  "record_registration report d registered = (report d, registered @ [d])"

section \<open>LocalFileMigrator\<close>

datatype language = PYTHON | SQL

text \<open>Only the \<open>code\<close> of an advice is read by the migrator.\<close>

datatype advice = Advice (advice_code: string)

text \<open>
  \<open>LinterContext\<close>, outside the modelled file: \<open>lint lang\<close> is
  \<open>context.linter(lang).lint\<close>, \<open>fixer lang c\<close> is \<open>context.fixer(lang, c)\<close>
  (\<open>None\<close> when there is no fixer), a fixer being its \<open>apply\<close> function.
\<close>

record linter_context =
  lint :: "language \<Rightarrow> string \<Rightarrow> advice list"
  fixer :: "language \<Rightarrow> string \<Rightarrow> (string \<Rightarrow> string) option"

text \<open>\<open>LocalFileMigrator(context_factory)\<close>, with the context the factory returns.\<close>

datatype local_file_migrator = LocalFileMigrator linter_context

text \<open>
  The files the migrator sees: a path has no entry when \<open>open("r")\<close> raises, and a file
  is text or cannot be decoded. \<open>writes\<close> logs every \<open>open("w")\<close>, in call order.
\<close>

datatype file_content = Text string | Undecodable

record file_store =
  files :: "posix_path \<Rightarrow> file_content option"
  writes :: "posix_path list"

text \<open>\<open>s.rfind(c)\<close>: the last index of \<open>c\<close>, or \<open>-1\<close>.\<close>

fun str_rfind :: "char \<Rightarrow> string \<Rightarrow> int" where
  "str_rfind c [] = - 1"
| "str_rfind c (x # xs) =
     (let r = str_rfind c xs in if 0 \<le> r then r + 1 else if x = c then 0 else - 1)"

text \<open>\<open>p.suffix\<close>: the name from its last dot on, unless that dot is the first or the
  last character of the name.\<close>

definition path_suffix :: "posix_path \<Rightarrow> string" where
  "path_suffix p =
     (let name = path_name p; i = str_rfind (CHR ''.'') name
      in if 0 < i \<and> i < int (length name) - 1 then drop (nat i) name else [])"

text \<open>\<open>self._extensions\<close>.\<close>

definition extensions :: "string \<Rightarrow> language option" where
  "extensions = [''.py'' \<mapsto> PYTHON, ''.sql'' \<mapsto> SQL]"

text \<open>The loop over the advices: the code so far and whether a fix was applied.\<close>

fun apply_fixes ::
  "linter_context \<Rightarrow> language \<Rightarrow> advice list \<Rightarrow> string \<Rightarrow> bool \<Rightarrow> string \<times> bool" where
  "apply_fixes context lang [] code_v applied = (code_v, applied)"
| "apply_fixes context lang (adv # rest) code_v applied =
     (case fixer context lang (advice_code adv) of
        None \<Rightarrow> apply_fixes context lang rest code_v applied
      | Some fx \<Rightarrow> apply_fixes context lang rest (fx code_v) True)"

text \<open>\<open>_apply_file_fix\<close>. Every \<open>Language\<close> member is truthy, so the test
  \<open>if not language\<close> never returns. The result is the returned value, or the error
  raised by \<open>open("r")\<close>, and the files afterwards.\<close>

definition private_apply_file_fix ::
  "local_file_migrator \<Rightarrow> posix_path \<Rightarrow> file_store \<Rightarrow> (os_error + bool) \<times> file_store" where
  "private_apply_file_fix m p st =
     (case m of LocalFileMigrator context \<Rightarrow>
        (case extensions (path_suffix p) of
           None \<Rightarrow> (Inr False, st)
         | Some lang \<Rightarrow>
             (case files st p of
                None \<Rightarrow> (Inl OSError, st)
              | Some Undecodable \<Rightarrow> (Inr False, st)
              | Some (Text code_v) \<Rightarrow>
                  (let (fixed, applied) =
                         apply_fixes context lang (lint context lang code_v) code_v False
                   in if \<not> applied then (Inr False, st)
                      else (Inr True,
                            st\<lparr>files := (files st)(p \<mapsto> Text fixed),
                               writes := writes st @ [p]\<rparr>)))))"

section \<open>MigrationSequencer\<close>

text \<open>
  The sequencer's module is not among the modelled sources; only its test is. The
  definitions of this section follow the specification's description of it.
\<close>

type_synonym node_key = "string \<times> string"

text \<open>Modelled from the spec: the candidate node of \<open>MigrationSequencer\<close>. A node is an
  object type and id; its \<open>node_id\<close> is the step id, given at first registration.\<close>

record migration_node =
  node_id :: nat
  node_key :: node_key

text \<open>Modelled from the spec: \<open>MigrationStep\<close>, without the name and owner, which are
  carried from the workspace and play no part in the ordering.\<close>

record migration_step =
  step_id :: nat
  object_type :: string
  object_id :: string
  step_number :: nat
  required_step_ids :: "nat list"

text \<open>Modelled from the spec: the state of \<open>MigrationSequencer\<close> while registering:
  the nodes in registration order and the edges \<open>(x, y)\<close>, "x requires y".\<close>

record migration_sequencer =
  nodes :: "migration_node list"
  requirements :: "(node_key \<times> node_key) list"

definition new_sequencer :: migration_sequencer where
  "new_sequencer = \<lparr>nodes = [], requirements = []\<rparr>"

text \<open>Modelled from the spec: \<open>MigrationSequencer.register_dependency(parent, object_type,
  object_id)\<close>. The node is inserted if not already present; with a parent, the edge
  "parent requires this node" is recorded.\<close>

definition register_dependency ::
  "node_key option \<Rightarrow> string \<Rightarrow> string \<Rightarrow> migration_sequencer \<Rightarrow> migration_sequencer" where
  "register_dependency parent obj_type obj_id s =
     (let key = (obj_type, obj_id);
          s1 = (if key \<in> set (map node_key (nodes s)) then s
                else s\<lparr>nodes := nodes s @
                         [\<lparr>node_id = Suc (length (nodes s)), node_key = key\<rparr>]\<rparr>)
      in case parent of
           None \<Rightarrow> s1
         | Some pk \<Rightarrow>
             (if (pk, key) \<in> set (requirements s1) then s1
              else s1\<lparr>requirements := requirements s1 @ [(pk, key)]\<rparr>))"

text \<open>The direct requirements of a node.\<close>

definition required_by :: "migration_sequencer \<Rightarrow> node_key \<Rightarrow> node_key list" where
  "required_by s x = map snd (filter (\<lambda>e. fst e = x) (requirements s))"

text \<open>The nodes reached from \<open>xs\<close> along at most \<open>n\<close> further requirement edges.\<close>

primrec requires_within :: "migration_sequencer \<Rightarrow> nat \<Rightarrow> node_key list \<Rightarrow> node_key list" where
  "requires_within s 0 xs = xs"
| "requires_within s (Suc n) xs =
     requires_within s n (remdups (xs @ concat (map (required_by s) xs)))"

definition requires_transitively :: "migration_sequencer \<Rightarrow> node_key \<Rightarrow> node_key \<Rightarrow> bool" where
  "requires_transitively s x y \<longleftrightarrow>
     y \<in> set (requires_within s (length (nodes s)) (required_by s x))"

text \<open>Modelled from the spec: the readiness test of the missing
  \<open>MigrationSequencer.generate_steps\<close>. A node can be emitted when each of its
  requirements is already emitted or is mutual (the required node requires it back,
  directly or not): mutual edges are recorded but do not block.\<close>

definition ready :: "migration_sequencer \<Rightarrow> node_key list \<Rightarrow> node_key \<Rightarrow> bool" where
  "ready s emitted x \<longleftrightarrow>
     list_all (\<lambda>y. y \<in> set emitted \<or> requires_transitively s y x) (required_by s x)"

text \<open>Modelled from the spec: the loop of the missing
  \<open>MigrationSequencer.generate_steps\<close>. Among the nodes that can be emitted, the first
  registered is taken. The fuel is the number of nodes, one per emitted step.\<close>

primrec sequence_nodes ::
  "migration_sequencer \<Rightarrow> nat \<Rightarrow> node_key list \<Rightarrow> node_key list \<Rightarrow> node_key list" where
  "sequence_nodes s 0 remaining emitted = emitted"
| "sequence_nodes s (Suc n) remaining emitted =
     (case find (ready s emitted) remaining of
        None \<Rightarrow> emitted
      | Some x \<Rightarrow> sequence_nodes s n (remove1 x remaining) (emitted @ [x]))"

definition id_of :: "migration_sequencer \<Rightarrow> node_key \<Rightarrow> nat" where
  "id_of s k =
     (case find (\<lambda>n. node_key n = k) (nodes s) of None \<Rightarrow> 0 | Some n \<Rightarrow> node_id n)"

text \<open>Modelled from the spec: the missing \<open>MigrationSequencer.generate_steps\<close>, the steps
  in the order found, numbered from 1, each with the ids of its direct requirements.\<close>

definition generate_steps :: "migration_sequencer \<Rightarrow> migration_step list" where
  "generate_steps s =
     (let ordered = sequence_nodes s (length (nodes s)) (map node_key (nodes s)) []
      in map (\<lambda>(i, k). \<lparr>step_id = id_of s k, object_type = fst k, object_id = snd k,
                         step_number = Suc i,
                         required_step_ids = map (id_of s) (required_by s k)\<rparr>)
             (enumerate 0 ordered))"

text \<open>The scenario of \<open>test_sequencer_supports_cyclic_dependencies\<close>: the root is
  registered first, then the edges from root to a, from root to b, from a to b and from
  b to a, in the order the test adds them.\<close>

definition cyclic_registration :: migration_sequencer where
  "cyclic_registration =
     (register_dependency (Some (''FILE'', ''b.py'')) ''FILE'' ''a.py''
     (register_dependency (Some (''FILE'', ''a.py'')) ''FILE'' ''b.py''
     (register_dependency (Some (''FILE'', ''root.py'')) ''FILE'' ''b.py''
     (register_dependency (Some (''FILE'', ''root.py'')) ''FILE'' ''a.py''
     (register_dependency None ''FILE'' ''root.py'' new_sequencer)))))"

text \<open>The same edges in the order a depth-first visit from the root meets them.\<close>

definition cyclic_registration_depth_first :: migration_sequencer where
  "cyclic_registration_depth_first =
     (register_dependency (Some (''FILE'', ''root.py'')) ''FILE'' ''b.py''
     (register_dependency (Some (''FILE'', ''b.py'')) ''FILE'' ''a.py''
     (register_dependency (Some (''FILE'', ''a.py'')) ''FILE'' ''b.py''
     (register_dependency (Some (''FILE'', ''root.py'')) ''FILE'' ''a.py''
     (register_dependency None ''FILE'' ''root.py'' new_sequencer)))))"

section \<open>Concrete inputs\<close>

text \<open>An allow-list that knows no module.\<close>

definition no_allow_list :: "string \<Rightarrow> compatibility" where
  "no_allow_list name = \<lparr>known = False, known_problems = []\<rparr>"

text \<open>An allow-list that knows \<open>os\<close> without problems and \<open>dbutils\<close> with one.\<close>

definition os_allow_list :: "string \<Rightarrow> compatibility" where
  "os_allow_list name =
     (if name = ''os'' then \<lparr>known = True, known_problems = []\<rparr>
      else if name = ''dbutils'' then
        \<lparr>known = True,
         known_problems = [\<lparr>code = ''dbutils-flagged'', message = ''dbutils is flagged''\<rparr>]\<rparr>
      else \<lparr>known = False, known_problems = []\<rparr>)"

text \<open>A lookup in directory \<open>d\<close> that resolves exactly the paths of \<open>found\<close>.\<close>

definition lookup_only :: "posix_path \<Rightarrow> posix_path list \<Rightarrow> path_lookup" where
  "lookup_only d found =
     \<lparr>cwd = d, resolve = (\<lambda>p. if p \<in> set found then Inr (Some p) else Inr None)\<rparr>"

text \<open>A lookup in directory \<open>d\<close> on a file system that holds the files \<open>held\<close> and
  every directory on the way to them: a path resolves to the location it denotes when a
  file is there, and a path with a segment of more than 255 characters raises, as the
  operating system does for a file name that is too long.\<close>

definition fs_lookup :: "posix_path \<Rightarrow> posix_path list \<Rightarrow> path_lookup" where
  "fs_lookup d held =
     \<lparr>cwd = d,
      resolve = (\<lambda>p. if list_ex (\<lambda>s. 255 < length s) (tail p) then Inl OSError
                     else if normpath p \<in> set held then Inr (Some (normpath p))
                     else Inr None)\<rparr>"

text \<open>A small tree: \<open>/repo/src\<close> holds a notebook, a file and a directory; \<open>/repo/.git\<close>
  and \<open>/repo/.git/hooks\<close> hold one file each.\<close>

definition repo_fs :: file_system where
  "repo_fs =
     \<lparr>iterdir = (\<lambda>p.
         if p = Path ''/repo/src''
           then Some [Path ''/repo/src/nb.py'', Path ''/repo/src/mod.py'', Path ''/repo/src/sub'']
         else if p = Path ''/repo/.git'' then Some [Path ''/repo/.git/config'']
         else if p = Path ''/repo/.git/hooks'' then Some [Path ''/repo/.git/hooks/pre-commit'']
         else None),
      is_file = (\<lambda>p. p \<in> set [Path ''/repo/src/nb.py'', Path ''/repo/src/mod.py'',
                                  Path ''/repo/.git/config'', Path ''/repo/.git/hooks/pre-commit'']),
      is_a_notebook = (\<lambda>p. p = Path ''/repo/src/nb.py'')\<rparr>"

text \<open>A registration that reports one problem for every dependency loaded as a folder.\<close>

definition report_folders :: "dependency \<Rightarrow> dependency_problem list" where
  "report_folders d =
     (if loader d = FolderLoader
      then [\<lparr>code = ''folder-seen'', message = as_posix (path d)\<rparr>] else [])"

text \<open>A context with two advices on every source, of which only the first has a fixer,
  and a context with the same advices and no fixer.\<close>

definition fixing_context :: linter_context where
  "fixing_context =
     \<lparr>lint = (\<lambda>lang src. [Advice ''table-migrate'', Advice ''other'']),
      fixer = (\<lambda>lang c. if c = ''table-migrate'' then Some (\<lambda>src. src @ ''-- fixed'') else None)\<rparr>"

definition advising_context :: linter_context where
  "advising_context =
     \<lparr>lint = (\<lambda>lang src. [Advice ''table-migrate'', Advice ''other'']),
      fixer = (\<lambda>lang c. None)\<rparr>"

text \<open>Three files: a Python source, a text note, and a SQL file that is not valid text.\<close>

definition some_files :: file_store where
  "some_files =
     \<lparr>files = [Path ''/repo/job.py'' \<mapsto> Text ''select 1'',
               Path ''/repo/notes.txt'' \<mapsto> Text ''hello'',
               Path ''/repo/bad.sql'' \<mapsto> Undecodable],
      writes = []\<rparr>"

section \<open>The import name translation\<close>

text \<open>After the first character, the loop of \<open>_resolve_import\<close> appends one \<open>..\<close> per
  dot and stops at the first other character, which starts the remainder.\<close>

lemma import_parts_later:
  "0 < i \<Longrightarrow> import_parts c i s ps =
     ps @ replicate (length (takeWhile (\<lambda>c. c = CHR ''.'') s)) ''..''
        @ (if dropWhile (\<lambda>c. c = CHR ''.'') s = [] then []
           else [str_replace (CHR ''.'') (CHR ''/'') (dropWhile (\<lambda>c. c = CHR ''.'') s)])"
proof (induction s arbitrary: i ps)
  case Nil
  then show ?case by simp
next
  case (Cons rune rest)
  show ?case
  proof (cases "rune = CHR ''.''")
    case True
    with Cons.prems Cons.IH [of "Suc i" "ps @ [''..'']"] show ?thesis
      by (simp add: replicate_append_same)
  next
    case False
    with Cons.prems show ?thesis by simp
  qed
qed

lemma import_parts_translate:
  "import_parts c 0 name [] = translate_import_name c name"
proof (cases name)
  case Nil
  then show ?thesis by (simp add: translate_import_name_def)
next
  case (Cons rune rest)
  show ?thesis
  proof (cases "rune = CHR ''.''")
    case True
    with Cons show ?thesis
      by (simp add: translate_import_name_def import_parts_later dropWhile_eq_drop)
  next
    case False
    with Cons show ?thesis
      by (simp add: translate_import_name_def)
  qed
qed

lemma resolve_import_probes:
  assumes "name \<noteq> []"
  shows "private_resolve_import (ImportFileResolver fl al) pl name lg =
     (let joined = str_join ''/'' (translate_import_name (as_posix (cwd pl)) name);
          first = Path (joined @ ''.py'');
          second = Path (joined @ ''/__init__.py'')
      in case resolve pl first of
           Inl e \<Rightarrow> (Inl e, lg @ [first])
         | Inr (Some a) \<Rightarrow>
             (Inr (Some \<lparr>dependency = Some \<lparr>loader = fl, path = a, inherits_context = False\<rparr>,
                         problems = []\<rparr>), lg @ [first])
         | Inr None \<Rightarrow>
             (case resolve pl second of
                Inl e \<Rightarrow> (Inl e, lg @ [first, second])
              | Inr (Some a) \<Rightarrow>
                  (Inr (Some \<lparr>dependency = Some \<lparr>loader = fl, path = a,
                                                 inherits_context = False\<rparr>,
                              problems = []\<rparr>), lg @ [first, second])
              | Inr None \<Rightarrow> (Inr None, lg @ [first, second])))"
  using assms
  by (simp add: private_resolve_import_def import_parts_translate Let_def
        split: sum.splits option.splits)

text \<open>
  C1 (as amended). For every import name that is \<open>.\<close> or has a remainder after its
  leading dots, \<open>_resolve_import\<close> joins with \<open>/\<close> the translation of the name (the first
  leading dot is the lookup directory, each further leading dot a parent step, the
  remainder with its dots replaced by \<open>/\<close>), probes \<open><path>.py\<close> and, only if the lookup
  finds nothing there, \<open><path>/__init__.py\<close>; the first candidate that resolves becomes
  a Dependency on the file loader with \<open>inherits_context = False\<close>, and when neither
  resolves there is no result. From the lookup directory \<open>/root/pkg\<close>, the candidates of
  \<open>.\<close> are \<open>/root/pkg.py\<close> and \<open>/root/pkg/__init__.py\<close>, and the candidates of
  \<open>..sibling\<close> are the locations \<open>/root/sibling.py\<close> and \<open>/root/sibling/__init__.py\<close>.
\<close>

theorem resolve_import_translation:
  "(name = ''.'' \<or> dropWhile (\<lambda>c. c = CHR ''.'') name \<noteq> [] \<longrightarrow>
      private_resolve_import (ImportFileResolver fl al) pl name lg =
        (let joined = str_join ''/'' (translate_import_name (as_posix (cwd pl)) name);
             first = Path (joined @ ''.py'');
             second = Path (joined @ ''/__init__.py'')
         in case resolve pl first of
              Inl e \<Rightarrow> (Inl e, lg @ [first])
            | Inr (Some a) \<Rightarrow>
                (Inr (Some \<lparr>dependency = Some \<lparr>loader = fl, path = a,
                                               inherits_context = False\<rparr>,
                            problems = []\<rparr>), lg @ [first])
            | Inr None \<Rightarrow>
                (case resolve pl second of
                   Inl e \<Rightarrow> (Inl e, lg @ [first, second])
                 | Inr (Some a) \<Rightarrow>
                     (Inr (Some \<lparr>dependency = Some \<lparr>loader = fl, path = a,
                                                    inherits_context = False\<rparr>,
                                 problems = []\<rparr>), lg @ [first, second])
                 | Inr None \<Rightarrow> (Inr None, lg @ [first, second])))) \<and>
   (let joined = str_join ''/'' (translate_import_name (as_posix (Path ''/root/pkg'')) ''.'')
    in Path (joined @ ''.py'') = Path ''/root/pkg.py'' \<and>
       Path (joined @ ''/__init__.py'') = Path ''/root/pkg/__init__.py'') \<and>
   (let joined = str_join ''/''
                   (translate_import_name (as_posix (Path ''/root/pkg'')) ''..sibling'')
    in normpath (Path (joined @ ''.py'')) = Path ''/root/sibling.py'' \<and>
       normpath (Path (joined @ ''/__init__.py'')) = Path ''/root/sibling/__init__.py'')"
proof (intro conjI impI)
  assume "name = ''.'' \<or> dropWhile (\<lambda>c. c = CHR ''.'') name \<noteq> []"
  then have "name \<noteq> []"
    by auto
  then show "private_resolve_import (ImportFileResolver fl al) pl name lg =
        (let joined = str_join ''/'' (translate_import_name (as_posix (cwd pl)) name);
             first = Path (joined @ ''.py'');
             second = Path (joined @ ''/__init__.py'')
         in case resolve pl first of
              Inl e \<Rightarrow> (Inl e, lg @ [first])
            | Inr (Some a) \<Rightarrow>
                (Inr (Some \<lparr>dependency = Some \<lparr>loader = fl, path = a,
                                               inherits_context = False\<rparr>,
                            problems = []\<rparr>), lg @ [first])
            | Inr None \<Rightarrow>
                (case resolve pl second of
                   Inl e \<Rightarrow> (Inl e, lg @ [first, second])
                 | Inr (Some a) \<Rightarrow>
                     (Inr (Some \<lparr>dependency = Some \<lparr>loader = fl, path = a,
                                                    inherits_context = False\<rparr>,
                                 problems = []\<rparr>), lg @ [first, second])
                 | Inr None \<Rightarrow> (Inr None, lg @ [first, second])))"
    by (rule resolve_import_probes)
next
  show "let joined = str_join ''/'' (translate_import_name (as_posix (Path ''/root/pkg'')) ''.'')
    in Path (joined @ ''.py'') = Path ''/root/pkg.py'' \<and>
       Path (joined @ ''/__init__.py'') = Path ''/root/pkg/__init__.py''"
    by code_simp
next
  show "let joined = str_join ''/''
                   (translate_import_name (as_posix (Path ''/root/pkg'')) ''..sibling'')
    in normpath (Path (joined @ ''.py'')) = Path ''/root/sibling.py'' \<and>
       normpath (Path (joined @ ''/__init__.py'')) = Path ''/root/sibling/__init__.py''"
    by code_simp
qed

text \<open>On a file system, from the lookup directory \<open>/root/pkg\<close>: \<open>.\<close> probes
  \<open>/root/pkg.py\<close>, then finds \<open>/root/pkg/__init__.py\<close>; \<open>..sibling\<close> finds
  \<open>/root/sibling.py\<close> at its first probe; and \<open>..sibling\<close> finds the package
  \<open>/root/sibling/__init__.py\<close> at its second.\<close>

theorem resolve_import_translation_witness:
  "(''.'' = ''.'' \<or> dropWhile (\<lambda>c. c = CHR ''.'') ''.'' \<noteq> []) \<and>
   (''..sibling'' = ''.'' \<or> dropWhile (\<lambda>c. c = CHR ''.'') ''..sibling'' \<noteq> []) \<and>
   private_resolve_import (ImportFileResolver FileLoader no_allow_list)
       (fs_lookup (Path ''/root/pkg'') [Path ''/root/pkg/__init__.py'']) ''.'' [] =
     (Inr (Some \<lparr>dependency = Some \<lparr>loader = FileLoader, path = Path ''/root/pkg/__init__.py'',
                                     inherits_context = False\<rparr>, problems = []\<rparr>),
      [Path ''/root/pkg.py'', Path ''/root/pkg/__init__.py'']) \<and>
   private_resolve_import (ImportFileResolver FileLoader no_allow_list)
       (fs_lookup (Path ''/root/pkg'') [Path ''/root/sibling.py'']) ''..sibling'' [] =
     (Inr (Some \<lparr>dependency = Some \<lparr>loader = FileLoader, path = Path ''/root/sibling.py'',
                                     inherits_context = False\<rparr>, problems = []\<rparr>),
      [Path ''/root/pkg/../sibling.py'']) \<and>
   private_resolve_import (ImportFileResolver FileLoader no_allow_list)
       (fs_lookup (Path ''/root/pkg'') [Path ''/root/sibling/__init__.py'']) ''..sibling'' [] =
     (Inr (Some \<lparr>dependency = Some \<lparr>loader = FileLoader,
                                     path = Path ''/root/sibling/__init__.py'',
                                     inherits_context = False\<rparr>, problems = []\<rparr>),
      [Path ''/root/pkg/../sibling.py'', Path ''/root/pkg/../sibling/__init__.py''])"
proof -
  have d1: "''.'' = ''.'' \<or> dropWhile (\<lambda>c. c = CHR ''.'') ''.'' \<noteq> []"
    and d2: "''..sibling'' = ''.'' \<or> dropWhile (\<lambda>c. c = CHR ''.'') ''..sibling'' \<noteq> []"
    by simp_all
  note e1 = resolve_import_translation [THEN conjunct1, THEN mp, OF d1]
  note e2 = resolve_import_translation [THEN conjunct1, THEN mp, OF d2]
  have w1: "private_resolve_import (ImportFileResolver FileLoader no_allow_list)
       (fs_lookup (Path ''/root/pkg'') [Path ''/root/pkg/__init__.py'']) ''.'' [] =
     (Inr (Some \<lparr>dependency = Some \<lparr>loader = FileLoader, path = Path ''/root/pkg/__init__.py'',
                                     inherits_context = False\<rparr>, problems = []\<rparr>),
      [Path ''/root/pkg.py'', Path ''/root/pkg/__init__.py''])"
    unfolding e1 by code_simp
  have w2: "private_resolve_import (ImportFileResolver FileLoader no_allow_list)
       (fs_lookup (Path ''/root/pkg'') [Path ''/root/sibling.py'']) ''..sibling'' [] =
     (Inr (Some \<lparr>dependency = Some \<lparr>loader = FileLoader, path = Path ''/root/sibling.py'',
                                     inherits_context = False\<rparr>, problems = []\<rparr>),
      [Path ''/root/pkg/../sibling.py''])"
    unfolding e2 by code_simp
  have w3: "private_resolve_import (ImportFileResolver FileLoader no_allow_list)
       (fs_lookup (Path ''/root/pkg'') [Path ''/root/sibling/__init__.py'']) ''..sibling'' [] =
     (Inr (Some \<lparr>dependency = Some \<lparr>loader = FileLoader,
                                     path = Path ''/root/sibling/__init__.py'',
                                     inherits_context = False\<rparr>, problems = []\<rparr>),
      [Path ''/root/pkg/../sibling.py'', Path ''/root/pkg/../sibling/__init__.py''])"
    unfolding e2 by code_simp
  from d1 d2 w1 w2 w3 show ?thesis by blast
qed

text \<open>C1 as stated fails at the empty name: translated as the claim says it gives the
  candidate \<open>.py\<close>, which this lookup resolves, yet \<open>_resolve_import\<close> probes nothing and
  returns the \<open>ucx-bug\<close> problem instead of a Dependency.\<close>

theorem empty_import_name_counterexample:
  "resolve (fs_lookup (Path ''/root/pkg'') [Path ''.py''])
       (Path (str_join ''/'' (translate_import_name (as_posix (Path ''/root/pkg'')) [])
              @ ''.py'')) = Inr (Some (Path ''.py'')) \<and>
   private_resolve_import (ImportFileResolver FileLoader no_allow_list)
       (fs_lookup (Path ''/root/pkg'') [Path ''.py'']) [] [] =
     (Inr (Some \<lparr>dependency = None,
                 problems = [\<lparr>code = ''ucx-bug'', message = ''Import name is empty''\<rparr>]\<rparr>), [])"
  by code_simp

section \<open>The allow-list comes first\<close>

lemma resolve_allow_list_known:
  "known (al name) \<Longrightarrow>
   private_resolve_allow_list (ImportFileResolver fl al) name =
     Some \<lparr>dependency = None, problems = known_problems (al name)\<rparr>"
  by (simp add: private_resolve_allow_list_def Let_def)

lemma resolve_allow_list_unknown:
  "\<not> known (al name) \<Longrightarrow> private_resolve_allow_list (ImportFileResolver fl al) name = None"
  by (simp add: private_resolve_allow_list_def Let_def)

text \<open>
  C2. When the allow-list knows the name, \<open>resolve_import\<close> returns no dependency and
  exactly the allow-list's problems, and the log of lookups is unchanged: no path is
  handed to the lookup, whatever it would resolve.
\<close>

theorem allow_listed_import_skips_path_search:
  assumes "known (al name)"
  shows "resolve_import (ImportFileResolver fl al) pl name lg =
           (Inr \<lparr>dependency = None, problems = known_problems (al name)\<rparr>, lg)"
  using assms by (simp add: resolve_import_def resolve_allow_list_known)

text \<open>With files \<open>os.py\<close> and \<open>dbutils.py\<close> that the lookup resolves: \<open>os\<close> gives no
  dependency and no problem, \<open>dbutils\<close> gives its one problem, and nothing is probed.\<close>

theorem allow_listed_import_skips_path_search_witness:
  "known (os_allow_list ''os'') \<and> known (os_allow_list ''dbutils'') \<and>
   resolve (lookup_only (Path ''/root'') [Path ''os.py'', Path ''dbutils.py'']) (Path ''os.py'')
     = Inr (Some (Path ''os.py'')) \<and>
   resolve_import (ImportFileResolver FileLoader os_allow_list)
       (lookup_only (Path ''/root'') [Path ''os.py'', Path ''dbutils.py'']) ''os'' [] =
     (Inr \<lparr>dependency = None, problems = []\<rparr>, []) \<and>
   resolve_import (ImportFileResolver FileLoader os_allow_list)
       (lookup_only (Path ''/root'') [Path ''os.py'', Path ''dbutils.py'']) ''dbutils'' [] =
     (Inr \<lparr>dependency = None,
           problems = [\<lparr>code = ''dbutils-flagged'', message = ''dbutils is flagged''\<rparr>]\<rparr>, [])"
proof -
  have k1: "known (os_allow_list ''os'')" and k2: "known (os_allow_list ''dbutils'')"
    by (simp_all add: os_allow_list_def)
  have f: "resolve (lookup_only (Path ''/root'') [Path ''os.py'', Path ''dbutils.py''])
             (Path ''os.py'') = Inr (Some (Path ''os.py''))"
    by (simp add: lookup_only_def)
  have w1: "resolve_import (ImportFileResolver FileLoader os_allow_list)
       (lookup_only (Path ''/root'') [Path ''os.py'', Path ''dbutils.py'']) ''os'' [] =
     (Inr \<lparr>dependency = None, problems = []\<rparr>, [])"
    unfolding allow_listed_import_skips_path_search [of os_allow_list "''os''", OF k1]
    by (simp add: os_allow_list_def)
  have w2: "resolve_import (ImportFileResolver FileLoader os_allow_list)
       (lookup_only (Path ''/root'') [Path ''os.py'', Path ''dbutils.py'']) ''dbutils'' [] =
     (Inr \<lparr>dependency = None,
           problems = [\<lparr>code = ''dbutils-flagged'', message = ''dbutils is flagged''\<rparr>]\<rparr>, [])"
    unfolding allow_listed_import_skips_path_search [of os_allow_list "''dbutils''", OF k2]
    by (simp add: os_allow_list_def)
  from k1 k2 f w1 w2 show ?thesis by blast
qed

section \<open>What a MaybeDependency means inside resolve_import\<close>

lemma probe_candidates_found:
  "probe_candidates fl pl cs lg = (Inr (Some m), lg') \<Longrightarrow> dependency m \<noteq> None"
  by (induction cs arbitrary: lg) (auto simp: Let_def split: sum.splits option.splits)

lemma resolve_import_unknown_not_empty:
  assumes "\<not> known (al name)"
  shows "fst (resolve_import (ImportFileResolver fl al) pl name lg)
           \<noteq> Inr \<lparr>dependency = None, problems = []\<rparr>"
proof (cases "name = []")
  case True
  with assms have "\<not> known (al [])"
    by simp
  with True show ?thesis
    by (simp add: resolve_import_def resolve_allow_list_unknown private_resolve_import_def)
next
  case False
  obtain r lg' where p: "private_resolve_import (ImportFileResolver fl al) pl name lg = (r, lg')"
    by (cases "private_resolve_import (ImportFileResolver fl al) pl name lg")
  show ?thesis
  proof (cases r)
    case (Inl e)
    with assms p show ?thesis
      by (simp add: resolve_import_def resolve_allow_list_unknown)
  next
    case (Inr found)
    show ?thesis
    proof (cases found)
      case None
      with assms p Inr show ?thesis
        by (simp add: resolve_import_def resolve_allow_list_unknown private_fail_def)
    next
      case (Some m)
      with p False Inr have "probe_candidates fl pl
          [str_join ''/'' (import_parts (as_posix (cwd pl)) 0 name []) @ ''.py'',
           str_join ''/'' (import_parts (as_posix (cwd pl)) 0 name []) @ ''/__init__.py''] lg
          = (Inr (Some m), lg')"
        by (simp add: private_resolve_import_def Let_def del: probe_candidates.simps)
      then have "dependency m \<noteq> None"
        by (rule probe_candidates_found)
      with assms p Inr Some show ?thesis
        by (auto simp: resolve_import_def resolve_allow_list_unknown)
    qed
  qed
qed

text \<open>
  C3 (as amended). Inside \<open>resolve_import\<close> a strategy says "not applicable, try the
  next one" by returning no MaybeDependency at all: the allow-list step returns nothing
  exactly when the module is unknown. Every MaybeDependency a strategy returns is final
  and is returned unchanged, whether its problem list is empty or not, the allow-list's
  without any lookup. \<open>resolve_import\<close> returns a null dependency with no problems
  exactly when the allow-list knows the module and reports no problem.
\<close>

theorem maybe_dependency_is_final:
  "(private_resolve_allow_list (ImportFileResolver fl al) name = None \<longleftrightarrow> \<not> known (al name)) \<and>
   (\<forall>m. private_resolve_allow_list (ImportFileResolver fl al) name = Some m \<longrightarrow>
        resolve_import (ImportFileResolver fl al) pl name lg = (Inr m, lg)) \<and>
   (\<forall>m lg'. private_resolve_allow_list (ImportFileResolver fl al) name = None \<and>
        private_resolve_import (ImportFileResolver fl al) pl name lg = (Inr (Some m), lg') \<longrightarrow>
        resolve_import (ImportFileResolver fl al) pl name lg = (Inr m, lg')) \<and>
   (fst (resolve_import (ImportFileResolver fl al) pl name lg)
        = Inr \<lparr>dependency = None, problems = []\<rparr>
      \<longleftrightarrow> known (al name) \<and> known_problems (al name) = [])"
proof (intro conjI allI impI)
  show "private_resolve_allow_list (ImportFileResolver fl al) name = None \<longleftrightarrow> \<not> known (al name)"
    by (simp add: private_resolve_allow_list_def Let_def)
next
  fix m
  assume "private_resolve_allow_list (ImportFileResolver fl al) name = Some m"
  then show "resolve_import (ImportFileResolver fl al) pl name lg = (Inr m, lg)"
    by (simp add: resolve_import_def)
next
  fix m lg'
  assume "private_resolve_allow_list (ImportFileResolver fl al) name = None \<and>
          private_resolve_import (ImportFileResolver fl al) pl name lg = (Inr (Some m), lg')"
  then show "resolve_import (ImportFileResolver fl al) pl name lg = (Inr m, lg')"
    by (simp add: resolve_import_def)
next
  show "fst (resolve_import (ImportFileResolver fl al) pl name lg)
          = Inr \<lparr>dependency = None, problems = []\<rparr>
        \<longleftrightarrow> known (al name) \<and> known_problems (al name) = []"
  proof (cases "known (al name)")
    case True
    then show ?thesis
      by (simp add: resolve_import_def resolve_allow_list_known)
  next
    case False
    with resolve_import_unknown_not_empty [of al name, OF False] show ?thesis by simp
  qed
qed

text \<open>For \<open>os\<close>, known and unflagged, with a file \<open>os.py\<close> that resolves: the allow-list
  step returns a result, which is the final one, and it is the empty one.\<close>

theorem maybe_dependency_is_final_witness:
  "private_resolve_allow_list (ImportFileResolver FileLoader os_allow_list) ''os''
     = Some \<lparr>dependency = None, problems = []\<rparr> \<and>
   resolve_import (ImportFileResolver FileLoader os_allow_list)
       (lookup_only (Path ''/root'') [Path ''os.py'']) ''os'' [] =
     (Inr \<lparr>dependency = None, problems = []\<rparr>, []) \<and>
   known (os_allow_list ''os'') \<and> known_problems (os_allow_list ''os'') = []"
proof -
  have a: "private_resolve_allow_list (ImportFileResolver FileLoader os_allow_list) ''os''
             = Some \<lparr>dependency = None, problems = []\<rparr>"
    by (simp add: private_resolve_allow_list_def os_allow_list_def)
  note t = maybe_dependency_is_final [of FileLoader os_allow_list "''os''"
             "lookup_only (Path ''/root'') [Path ''os.py'']" "[]"]
  from t a have r: "resolve_import (ImportFileResolver FileLoader os_allow_list)
       (lookup_only (Path ''/root'') [Path ''os.py'']) ''os'' [] =
     (Inr \<lparr>dependency = None, problems = []\<rparr>, [])"
    by blast
  with t have "known (os_allow_list ''os'') \<and> known_problems (os_allow_list ''os'') = []"
    by simp
  with a r show ?thesis by blast
qed

text \<open>C3 as stated fails: for \<open>os\<close>, known and unflagged, the allow-list step returns
  a null dependency with no problems, and \<open>resolve_import\<close> returns it at once; the next
  strategy, the path search, would have found \<open>os.py\<close> and is not consulted.\<close>

theorem empty_result_is_terminal_counterexample:
  "private_resolve_allow_list (ImportFileResolver FileLoader os_allow_list) ''os''
     = Some \<lparr>dependency = None, problems = []\<rparr> \<and>
   private_resolve_import (ImportFileResolver FileLoader os_allow_list)
       (lookup_only (Path ''/root'') [Path ''os.py'']) ''os'' [] =
     (Inr (Some \<lparr>dependency = Some \<lparr>loader = FileLoader, path = Path ''os.py'',
                                     inherits_context = False\<rparr>, problems = []\<rparr>),
      [Path ''os.py'']) \<and>
   resolve_import (ImportFileResolver FileLoader os_allow_list)
       (lookup_only (Path ''/root'') [Path ''os.py'']) ''os'' [] =
     (Inr \<lparr>dependency = None, problems = []\<rparr>, [])"
  by code_simp

section \<open>Problems of an import that is not found\<close>

text \<open>
  C4. For a name the allow-list does not know: the empty name gives no dependency and the
  single problem \<open>ucx-bug\<close>; a non-empty name whose two candidates do not resolve gives
  no dependency and the single problem \<open>import-not-found\<close>; and the empty name never
  gives a problem with code \<open>import-not-found\<close>.
\<close>

theorem unresolved_import_problems:
  assumes "\<not> known (al name)"
  shows "(name = [] \<longrightarrow>
            fst (resolve_import (ImportFileResolver fl al) pl name lg) =
              Inr \<lparr>dependency = None,
                   problems = [\<lparr>code = ''ucx-bug'', message = ''Import name is empty''\<rparr>]\<rparr>) \<and>
         (name \<noteq> [] \<and>
          resolve pl (Path (str_join ''/'' (import_parts (as_posix (cwd pl)) 0 name [])
                            @ ''.py'')) = Inr None \<and>
          resolve pl (Path (str_join ''/'' (import_parts (as_posix (cwd pl)) 0 name [])
                            @ ''/__init__.py'')) = Inr None \<longrightarrow>
            fst (resolve_import (ImportFileResolver fl al) pl name lg) =
              Inr \<lparr>dependency = None,
                   problems = [\<lparr>code = ''import-not-found'',
                                message = ''Could not locate import: '' @ name\<rparr>]\<rparr>) \<and>
         (name = [] \<longrightarrow>
            (\<exists>m. fst (resolve_import (ImportFileResolver fl al) pl name lg) = Inr m \<and>
                 ''import-not-found'' \<notin> code ` set (problems m)))"
proof (cases "name = []")
  case True
  with assms have "\<not> known (al [])"
    by simp
  with True show ?thesis
    by (simp add: resolve_import_def resolve_allow_list_unknown private_resolve_import_def)
next
  case False
  with assms show ?thesis
    by (simp add: resolve_import_def resolve_allow_list_unknown private_resolve_import_def
          private_fail_def Let_def)
qed

text \<open>The empty name, and the name \<open>missing.module\<close> with nothing to resolve.\<close>

theorem unresolved_import_problems_witness:
  "\<not> known (no_allow_list []) \<and> \<not> known (no_allow_list ''missing.module'') \<and>
   fst (resolve_import (ImportFileResolver FileLoader no_allow_list)
          (lookup_only (Path ''/root/pkg'') []) [] []) =
     Inr \<lparr>dependency = None,
          problems = [\<lparr>code = ''ucx-bug'', message = ''Import name is empty''\<rparr>]\<rparr> \<and>
   fst (resolve_import (ImportFileResolver FileLoader no_allow_list)
          (lookup_only (Path ''/root/pkg'') []) ''missing.module'' []) =
     Inr \<lparr>dependency = None,
          problems = [\<lparr>code = ''import-not-found'',
                       message = ''Could not locate import: missing.module''\<rparr>]\<rparr>"
proof -
  have u1: "\<not> known (no_allow_list [])" and u2: "\<not> known (no_allow_list ''missing.module'')"
    by (simp_all add: no_allow_list_def)
  have n: "''missing.module'' \<noteq> []"
    by simp
  have r: "resolve (lookup_only (Path ''/root/pkg'') []) q = Inr None" for q
    by (simp add: lookup_only_def)
  from unresolved_import_problems [of no_allow_list "[]", OF u1, of FileLoader
         "lookup_only (Path ''/root/pkg'') []" "[]"]
  have w1: "fst (resolve_import (ImportFileResolver FileLoader no_allow_list)
          (lookup_only (Path ''/root/pkg'') []) [] []) =
     Inr \<lparr>dependency = None,
          problems = [\<lparr>code = ''ucx-bug'', message = ''Import name is empty''\<rparr>]\<rparr>"
    by blast
  from unresolved_import_problems [of no_allow_list "''missing.module''", OF u2, of FileLoader
         "lookup_only (Path ''/root/pkg'') []" "[]"]
    n r
  have w2: "fst (resolve_import (ImportFileResolver FileLoader no_allow_list)
          (lookup_only (Path ''/root/pkg'') []) ''missing.module'' []) =
     Inr \<lparr>dependency = None,
          problems = [\<lparr>code = ''import-not-found'',
                       message = ''Could not locate import: missing.module''\<rparr>]\<rparr>"
    by simp
  from u1 u2 w1 w2 show ?thesis by blast
qed

section \<open>Direct file references\<close>

text \<open>
  C8 (as amended). \<open>resolve_file\<close> asks the lookup once, for the path itself. When the
  lookup returns a resolved path, the result is a Dependency on that path and no problem;
  when the lookup returns nothing, the result is no dependency and the single problem
  \<open>file-not-found\<close>; in both cases no exception is raised. \<open>resolve_file\<close> catches
  nothing: an exception raised by the lookup leaves \<open>resolve_file\<close> as it is, so an
  exception is raised exactly when the lookup raises.
\<close>

theorem resolve_file_result:
  "(\<forall>a. resolve pl p = Inr (Some a) \<longrightarrow>
      resolve_file dflt (ImportFileResolver fl al) pl p lg =
        (Inr \<lparr>dependency = Some \<lparr>loader = fl, path = a, inherits_context = dflt\<rparr>,
              problems = []\<rparr>, lg @ [p])) \<and>
   (resolve pl p = Inr None \<longrightarrow>
      resolve_file dflt (ImportFileResolver fl al) pl p lg =
        (Inr \<lparr>dependency = None,
              problems = [\<lparr>code = ''file-not-found'',
                           message = ''File not found: '' @ as_posix p\<rparr>]\<rparr>, lg @ [p])) \<and>
   (\<forall>e. resolve pl p = Inl e \<longrightarrow>
      resolve_file dflt (ImportFileResolver fl al) pl p lg = (Inl e, lg @ [p])) \<and>
   ((\<exists>e. fst (resolve_file dflt (ImportFileResolver fl al) pl p lg) = Inl e) \<longleftrightarrow>
      (\<exists>e. resolve pl p = Inl e))"
proof (intro conjI allI impI)
  fix a
  assume "resolve pl p = Inr (Some a)"
  then show "resolve_file dflt (ImportFileResolver fl al) pl p lg =
        (Inr \<lparr>dependency = Some \<lparr>loader = fl, path = a, inherits_context = dflt\<rparr>,
              problems = []\<rparr>, lg @ [p])"
    by (simp add: resolve_file_def)
next
  assume "resolve pl p = Inr None"
  then show "resolve_file dflt (ImportFileResolver fl al) pl p lg =
        (Inr \<lparr>dependency = None,
              problems = [\<lparr>code = ''file-not-found'',
                           message = ''File not found: '' @ as_posix p\<rparr>]\<rparr>, lg @ [p])"
    by (simp add: resolve_file_def)
next
  fix e
  assume "resolve pl p = Inl e"
  then show "resolve_file dflt (ImportFileResolver fl al) pl p lg = (Inl e, lg @ [p])"
    by (simp add: resolve_file_def)
next
  show "(\<exists>e. fst (resolve_file dflt (ImportFileResolver fl al) pl p lg) = Inl e) \<longleftrightarrow>
          (\<exists>e. resolve pl p = Inl e)"
  proof (cases "resolve pl p")
    case (Inl e)
    then show ?thesis by (simp add: resolve_file_def)
  next
    case (Inr found)
    then show ?thesis by (cases found) (simp_all add: resolve_file_def)
  qed
qed

text \<open>On a file system holding \<open>/root/a.py\<close>: that path gives a Dependency, \<open>/root/b.py\<close>
  gives \<open>file-not-found\<close>, and a file name of 259 characters, on which the lookup raises,
  makes \<open>resolve_file\<close> raise.\<close>

theorem resolve_file_result_witness:
  "resolve (fs_lookup (Path ''/root'') [Path ''/root/a.py'']) (Path ''/root/a.py'')
     = Inr (Some (Path ''/root/a.py'')) \<and>
   resolve (fs_lookup (Path ''/root'') [Path ''/root/a.py'']) (Path ''/root/b.py'') = Inr None \<and>
   resolve (fs_lookup (Path ''/root'') [Path ''/root/a.py''])
       (Path (replicate 256 (CHR ''x'') @ ''.py'')) = Inl OSError \<and>
   resolve_file True (ImportFileResolver FileLoader no_allow_list)
       (fs_lookup (Path ''/root'') [Path ''/root/a.py'']) (Path ''/root/a.py'') [] =
     (Inr \<lparr>dependency = Some \<lparr>loader = FileLoader, path = Path ''/root/a.py'',
                               inherits_context = True\<rparr>, problems = []\<rparr>,
      [Path ''/root/a.py'']) \<and>
   resolve_file True (ImportFileResolver FileLoader no_allow_list)
       (fs_lookup (Path ''/root'') [Path ''/root/a.py'']) (Path ''/root/b.py'') [] =
     (Inr \<lparr>dependency = None,
           problems = [\<lparr>code = ''file-not-found'', message = ''File not found: /root/b.py''\<rparr>]\<rparr>,
      [Path ''/root/b.py'']) \<and>
   resolve_file True (ImportFileResolver FileLoader no_allow_list)
       (fs_lookup (Path ''/root'') [Path ''/root/a.py''])
       (Path (replicate 256 (CHR ''x'') @ ''.py'')) [] =
     (Inl OSError, [Path (replicate 256 (CHR ''x'') @ ''.py'')])"
proof -
  have f: "resolve (fs_lookup (Path ''/root'') [Path ''/root/a.py'']) (Path ''/root/a.py'')
             = Inr (Some (Path ''/root/a.py''))"
    by code_simp
  have g: "resolve (fs_lookup (Path ''/root'') [Path ''/root/a.py'']) (Path ''/root/b.py'')
             = Inr None"
    by code_simp
  have h: "resolve (fs_lookup (Path ''/root'') [Path ''/root/a.py''])
             (Path (replicate 256 (CHR ''x'') @ ''.py'')) = Inl OSError"
    by code_simp
  have m: "as_posix (Path ''/root/b.py'') = ''/root/b.py''"
    by code_simp
  from resolve_file_result [of "fs_lookup (Path ''/root'') [Path ''/root/a.py'']"
         "Path ''/root/a.py''" True FileLoader no_allow_list "[]"] f
  have w1: "resolve_file True (ImportFileResolver FileLoader no_allow_list)
       (fs_lookup (Path ''/root'') [Path ''/root/a.py'']) (Path ''/root/a.py'') [] =
     (Inr \<lparr>dependency = Some \<lparr>loader = FileLoader, path = Path ''/root/a.py'',
                               inherits_context = True\<rparr>, problems = []\<rparr>,
      [Path ''/root/a.py''])"
    by simp
  from resolve_file_result [of "fs_lookup (Path ''/root'') [Path ''/root/a.py'']"
         "Path ''/root/b.py''" True FileLoader no_allow_list "[]"] g m
  have w2: "resolve_file True (ImportFileResolver FileLoader no_allow_list)
       (fs_lookup (Path ''/root'') [Path ''/root/a.py'']) (Path ''/root/b.py'') [] =
     (Inr \<lparr>dependency = None,
           problems = [\<lparr>code = ''file-not-found'', message = ''File not found: /root/b.py''\<rparr>]\<rparr>,
      [Path ''/root/b.py''])"
    by simp
  from resolve_file_result [of "fs_lookup (Path ''/root'') [Path ''/root/a.py'']"
         "Path (replicate 256 (CHR ''x'') @ ''.py'')" True FileLoader no_allow_list "[]"] h
  have w3: "resolve_file True (ImportFileResolver FileLoader no_allow_list)
       (fs_lookup (Path ''/root'') [Path ''/root/a.py''])
       (Path (replicate 256 (CHR ''x'') @ ''.py'')) [] =
     (Inl OSError, [Path (replicate 256 (CHR ''x'') @ ''.py'')])"
    by simp
  from f g h w1 w2 w3 show ?thesis by blast
qed

text \<open>C8 as stated fails: for a file name of 259 characters the lookup raises
  \<open>OSError\<close>, and \<open>resolve_file\<close> returns neither a Dependency nor a \<open>file-not-found\<close>
  problem: the exception leaves it.\<close>

theorem resolve_file_raises_counterexample:
  "resolve_file True (ImportFileResolver FileLoader no_allow_list)
       (fs_lookup (Path ''/root'') [Path ''/root/a.py''])
       (Path (replicate 256 (CHR ''x'') @ ''.py'')) [] =
     (Inl OSError, [Path (replicate 256 (CHR ''x'') @ ''.py'')])"
  by code_simp

section \<open>Folders\<close>

lemma register_children_each:
  "register_children reg fs nl fl dl children g =
     register_each reg (map (child_dependency fs nl fl dl) children) g"
  by (induction children arbitrary: g)
     (simp_all add: child_dependency_def Let_def split: prod.splits)

lemma register_each_record:
  "register_each (record_registration report) ds registered =
     (concat (map report ds), registered @ ds)"
  by (induction ds arbitrary: registered) (simp_all add: record_registration_def)

lemma child_dependency_paths:
  "map path (map (child_dependency fs nl fl dl) cs) = cs"
  by (induction cs) (simp_all add: child_dependency_def)

text \<open>
  C5. A Folder whose final path segment is one of the six denylisted names registers
  nothing on the parent graph, which is returned as it was, and returns no problem,
  without listing the directory. The name tested is the final segment alone, whatever
  the segments before it, and a Folder with any other final segment is not pruned.
\<close>

theorem denylisted_folder_registers_nothing:
  "(path_name p \<in> {''__pycache__'', ''.git'', ''.github'', ''.venv'', ''.mypy_cache'',
                    ''site-packages''} \<longrightarrow>
      build_dependency_graph reg fs (Folder p nl fl dl) parent = Inr ([], parent)) \<and>
   path_name \<lparr>anchor = root, tail = segments @ [segment]\<rparr> = segment \<and>
   (path_name p \<notin> {''__pycache__'', ''.git'', ''.github'', ''.venv'', ''.mypy_cache'',
                    ''site-packages''} \<longrightarrow>
      build_dependency_graph reg fs (Folder p nl fl dl) parent =
        private_build_dependency_graph reg fs (Folder p nl fl dl) parent)"
  by (simp add: build_dependency_graph_def path_name_def)

text \<open>\<open>/repo/.git\<close> has a child and registers nothing; \<open>/repo/.git/hooks\<close> has \<open>.git\<close>
  before its final segment only, and registers its child.\<close>

theorem denylisted_folder_registers_nothing_witness:
  "path_name (Path ''/repo/.git'') = ''.git'' \<and>
   iterdir repo_fs (Path ''/repo/.git'') = Some [Path ''/repo/.git/config''] \<and>
   build_dependency_graph (record_registration report_folders) repo_fs
       (Folder (Path ''/repo/.git'') NotebookLoader FileLoader FolderLoader) [] = Inr ([], []) \<and>
   path_name (Path ''/repo/.git/hooks'') = ''hooks'' \<and>
   build_dependency_graph (record_registration report_folders) repo_fs
       (Folder (Path ''/repo/.git/hooks'') NotebookLoader FileLoader FolderLoader) [] =
     Inr ([], [\<lparr>loader = FileLoader, path = Path ''/repo/.git/hooks/pre-commit'',
                 inherits_context = False\<rparr>])"
proof -
  have n1: "path_name (Path ''/repo/.git'') = ''.git''"
    and n2: "path_name (Path ''/repo/.git/hooks'') = ''hooks''"
    by code_simp+
  have c: "iterdir repo_fs (Path ''/repo/.git'') = Some [Path ''/repo/.git/config'']"
    by code_simp
  note t1 = denylisted_folder_registers_nothing [of "Path ''/repo/.git''"
              "record_registration report_folders" repo_fs NotebookLoader FileLoader
              FolderLoader "[]"]
  note t2 = denylisted_folder_registers_nothing [of "Path ''/repo/.git/hooks''"
              "record_registration report_folders" repo_fs NotebookLoader FileLoader
              FolderLoader "[]"]
  from t1 n1 have w1: "build_dependency_graph (record_registration report_folders) repo_fs
       (Folder (Path ''/repo/.git'') NotebookLoader FileLoader FolderLoader) [] = Inr ([], [])"
    by simp
  have e: "private_build_dependency_graph (record_registration report_folders) repo_fs
       (Folder (Path ''/repo/.git/hooks'') NotebookLoader FileLoader FolderLoader) [] =
     Inr ([], [\<lparr>loader = FileLoader, path = Path ''/repo/.git/hooks/pre-commit'',
                 inherits_context = False\<rparr>])"
    by code_simp
  from t2 n2 e have w2: "build_dependency_graph (record_registration report_folders) repo_fs
       (Folder (Path ''/repo/.git/hooks'') NotebookLoader FileLoader FolderLoader) [] =
     Inr ([], [\<lparr>loader = FileLoader, path = Path ''/repo/.git/hooks/pre-commit'',
                 inherits_context = False\<rparr>])"
    by simp
  from n1 n2 c w1 w2 show ?thesis by blast
qed

text \<open>
  C9. For a Folder that is not denylisted and whose directory lists as \<open>children\<close>, the
  parent graph receives one registration per child, in listing order and nothing else:
  the dependency of a child has the child's path, the notebook loader when the child is a
  notebook, the file loader when it is a file that is not a notebook, the folder loader
  otherwise, and inherits the context exactly when the child is a notebook. The problems
  returned are those of the registrations, in order. On a parent that only records what
  is registered, the record grows by exactly these dependencies.
\<close>

theorem folder_registers_each_child:
  assumes "path_name p \<notin> {''__pycache__'', ''.git'', ''.github'', ''.venv'', ''.mypy_cache'',
                            ''site-packages''}"
    and "iterdir fs p = Some children"
  shows "build_dependency_graph reg fs (Folder p nl fl dl) parent =
           Inr (register_each reg (map (child_dependency fs nl fl dl) children) parent) \<and>
         build_dependency_graph (record_registration report) fs (Folder p nl fl dl) registered =
           Inr (concat (map report (map (child_dependency fs nl fl dl) children)),
                registered @ map (child_dependency fs nl fl dl) children) \<and>
         map path (map (child_dependency fs nl fl dl) children) = children \<and>
         (\<forall>child \<in> set children.
            loader (child_dependency fs nl fl dl child) =
              (if is_a_notebook fs child then nl else if is_file fs child then fl else dl) \<and>
            inherits_context (child_dependency fs nl fl dl child) = is_a_notebook fs child)"
proof -
  have b: "build_dependency_graph r fs (Folder p nl fl dl) g =
             Inr (register_each r (map (child_dependency fs nl fl dl) children) g)"
    for r :: "dependency \<Rightarrow> 'x \<Rightarrow> dependency_problem list \<times> 'x" and g
    using assms
    by (simp add: build_dependency_graph_def private_build_dependency_graph_def
          register_children_each)
  have m: "map path (map (child_dependency fs nl fl dl) children) = children"
    by (rule child_dependency_paths)
  have k: "\<forall>child \<in> set children.
            loader (child_dependency fs nl fl dl child) =
              (if is_a_notebook fs child then nl else if is_file fs child then fl else dl) \<and>
            inherits_context (child_dependency fs nl fl dl child) = is_a_notebook fs child"
    by (simp add: child_dependency_def)
  from b [of reg parent] b [of "record_registration report" registered] m k show ?thesis
    by (simp only: register_each_record)
qed

text \<open>\<open>/repo/src\<close> holds a notebook, a file and a directory: three registrations, one
  with each loader, and the one problem the recording parent reports for the folder.\<close>

theorem folder_registers_each_child_witness:
  "path_name (Path ''/repo/src'') \<notin> {''__pycache__'', ''.git'', ''.github'', ''.venv'',
                                           ''.mypy_cache'', ''site-packages''} \<and>
   iterdir repo_fs (Path ''/repo/src'') =
     Some [Path ''/repo/src/nb.py'', Path ''/repo/src/mod.py'', Path ''/repo/src/sub''] \<and>
   build_dependency_graph (record_registration report_folders) repo_fs
       (Folder (Path ''/repo/src'') NotebookLoader FileLoader FolderLoader) [] =
     Inr ([\<lparr>code = ''folder-seen'', message = ''/repo/src/sub''\<rparr>],
          [\<lparr>loader = NotebookLoader, path = Path ''/repo/src/nb.py'', inherits_context = True\<rparr>,
           \<lparr>loader = FileLoader, path = Path ''/repo/src/mod.py'', inherits_context = False\<rparr>,
           \<lparr>loader = FolderLoader, path = Path ''/repo/src/sub'', inherits_context = False\<rparr>])"
proof -
  have n: "path_name (Path ''/repo/src'') \<notin> {''__pycache__'', ''.git'', ''.github'', ''.venv'',
                                                  ''.mypy_cache'', ''site-packages''}"
    by code_simp
  have c: "iterdir repo_fs (Path ''/repo/src'') =
     Some [Path ''/repo/src/nb.py'', Path ''/repo/src/mod.py'', Path ''/repo/src/sub'']"
    by code_simp
  have e: "(concat (map report_folders (map (child_dependency repo_fs NotebookLoader FileLoader
               FolderLoader) [Path ''/repo/src/nb.py'', Path ''/repo/src/mod.py'',
               Path ''/repo/src/sub''])),
            [] @ map (child_dependency repo_fs NotebookLoader FileLoader FolderLoader)
               [Path ''/repo/src/nb.py'', Path ''/repo/src/mod.py'', Path ''/repo/src/sub'']) =
     ([\<lparr>code = ''folder-seen'', message = ''/repo/src/sub''\<rparr>],
      [\<lparr>loader = NotebookLoader, path = Path ''/repo/src/nb.py'', inherits_context = True\<rparr>,
       \<lparr>loader = FileLoader, path = Path ''/repo/src/mod.py'', inherits_context = False\<rparr>,
       \<lparr>loader = FolderLoader, path = Path ''/repo/src/sub'', inherits_context = False\<rparr>])"
    by code_simp
  from folder_registers_each_child [OF n c, of "record_registration report_folders"
         NotebookLoader FileLoader FolderLoader "[]" report_folders "[]"]
  have "build_dependency_graph (record_registration report_folders) repo_fs
       (Folder (Path ''/repo/src'') NotebookLoader FileLoader FolderLoader) [] =
     Inr (concat (map report_folders (map (child_dependency repo_fs NotebookLoader FileLoader
               FolderLoader) [Path ''/repo/src/nb.py'', Path ''/repo/src/mod.py'',
               Path ''/repo/src/sub''])),
            [] @ map (child_dependency repo_fs NotebookLoader FileLoader FolderLoader)
               [Path ''/repo/src/nb.py'', Path ''/repo/src/mod.py'', Path ''/repo/src/sub''])"
    by (rule conjunct1 [OF conjunct2])
  also have "\<dots> =
     Inr ([\<lparr>code = ''folder-seen'', message = ''/repo/src/sub''\<rparr>],
          [\<lparr>loader = NotebookLoader, path = Path ''/repo/src/nb.py'', inherits_context = True\<rparr>,
           \<lparr>loader = FileLoader, path = Path ''/repo/src/mod.py'', inherits_context = False\<rparr>,
           \<lparr>loader = FolderLoader, path = Path ''/repo/src/sub'', inherits_context = False\<rparr>])"
    by (rule arg_cong [OF e])
  finally have "build_dependency_graph (record_registration report_folders) repo_fs
       (Folder (Path ''/repo/src'') NotebookLoader FileLoader FolderLoader) [] =
     Inr ([\<lparr>code = ''folder-seen'', message = ''/repo/src/sub''\<rparr>],
          [\<lparr>loader = NotebookLoader, path = Path ''/repo/src/nb.py'', inherits_context = True\<rparr>,
           \<lparr>loader = FileLoader, path = Path ''/repo/src/mod.py'', inherits_context = False\<rparr>,
           \<lparr>loader = FolderLoader, path = Path ''/repo/src/sub'', inherits_context = False\<rparr>])" .
  with n c show ?thesis by blast
qed

section \<open>The migrator writes only what it fixed\<close>

lemma apply_fixes_without_fixer:
  "\<forall>a \<in> set advs. fixer ctx lang (advice_code a) = None \<Longrightarrow>
   apply_fixes ctx lang advs src applied = (src, applied)"
  by (induction advs arbitrary: src applied) simp_all

lemma apply_fixes_applied:
  "snd (apply_fixes ctx lang advs src applied) \<longleftrightarrow>
     applied \<or> (\<exists>a \<in> set advs. fixer ctx lang (advice_code a) \<noteq> None)"
  by (induction advs arbitrary: src applied) (auto split: option.splits)

lemma extensions_none: "extensions sfx = None \<longleftrightarrow> sfx \<notin> {''.py'', ''.sql''}"
  by (simp add: extensions_def)

text \<open>
  C10. \<open>_apply_file_fix\<close> leaves the files as they were and returns \<open>False\<close> for a path
  whose suffix is neither \<open>.py\<close> nor \<open>.sql\<close>, for a supported file that cannot be
  decoded, and for a supported file none of whose advices has a fixer. Whenever the files
  are not what they were, the call returned \<open>True\<close>, opened exactly this path for writing,
  and at least one advice on the supported, decoded source had a fixer; and when an
  advice has a fixer, the file is written and \<open>True\<close> returned.
\<close>

theorem file_written_only_when_fixed:
  "(path_suffix p \<notin> {''.py'', ''.sql''} \<longrightarrow>
      private_apply_file_fix (LocalFileMigrator ctx) p st = (Inr False, st)) \<and>
   (path_suffix p \<in> {''.py'', ''.sql''} \<and> files st p = Some Undecodable \<longrightarrow>
      private_apply_file_fix (LocalFileMigrator ctx) p st = (Inr False, st)) \<and>
   (\<forall>lang src. extensions (path_suffix p) = Some lang \<and> files st p = Some (Text src) \<and>
        (\<forall>a \<in> set (lint ctx lang src). fixer ctx lang (advice_code a) = None) \<longrightarrow>
      private_apply_file_fix (LocalFileMigrator ctx) p st = (Inr False, st)) \<and>
   (snd (private_apply_file_fix (LocalFileMigrator ctx) p st) \<noteq> st \<longrightarrow>
      fst (private_apply_file_fix (LocalFileMigrator ctx) p st) = Inr True \<and>
      writes (snd (private_apply_file_fix (LocalFileMigrator ctx) p st)) = writes st @ [p] \<and>
      (\<exists>lang src. extensions (path_suffix p) = Some lang \<and> files st p = Some (Text src) \<and>
         (\<exists>a \<in> set (lint ctx lang src). fixer ctx lang (advice_code a) \<noteq> None))) \<and>
   (\<forall>lang src. extensions (path_suffix p) = Some lang \<and> files st p = Some (Text src) \<and>
        (\<exists>a \<in> set (lint ctx lang src). fixer ctx lang (advice_code a) \<noteq> None) \<longrightarrow>
      fst (private_apply_file_fix (LocalFileMigrator ctx) p st) = Inr True \<and>
      writes (snd (private_apply_file_fix (LocalFileMigrator ctx) p st)) = writes st @ [p])"
proof (intro conjI allI impI)
  assume "path_suffix p \<notin> {''.py'', ''.sql''}"
  then have "extensions (path_suffix p) = None"
    by (simp add: extensions_none)
  then show "private_apply_file_fix (LocalFileMigrator ctx) p st = (Inr False, st)"
    by (simp add: private_apply_file_fix_def)
next
  assume a: "path_suffix p \<in> {''.py'', ''.sql''} \<and> files st p = Some Undecodable"
  then have "extensions (path_suffix p) \<noteq> None"
    unfolding extensions_none by blast
  with a obtain lang where
    "extensions (path_suffix p) = Some lang" "files st p = Some Undecodable"
    by blast
  then show "private_apply_file_fix (LocalFileMigrator ctx) p st = (Inr False, st)"
    by (simp add: private_apply_file_fix_def)
next
  fix lang src
  assume a: "extensions (path_suffix p) = Some lang \<and> files st p = Some (Text src) \<and>
        (\<forall>a \<in> set (lint ctx lang src). fixer ctx lang (advice_code a) = None)"
  then have "apply_fixes ctx lang (lint ctx lang src) src False = (src, False)"
    by (simp add: apply_fixes_without_fixer)
  with a show "private_apply_file_fix (LocalFileMigrator ctx) p st = (Inr False, st)"
    by (simp add: private_apply_file_fix_def)
next
  assume c: "snd (private_apply_file_fix (LocalFileMigrator ctx) p st) \<noteq> st"
  then obtain lang src where
    l: "extensions (path_suffix p) = Some lang" and f: "files st p = Some (Text src)"
    by (auto simp: private_apply_file_fix_def split: option.splits file_content.splits)
  obtain fixed applied where
    r: "apply_fixes ctx lang (lint ctx lang src) src False = (fixed, applied)"
    by (cases "apply_fixes ctx lang (lint ctx lang src) src False")
  with c l f have ap: "applied"
    by (cases applied) (simp_all add: private_apply_file_fix_def)
  with r apply_fixes_applied [of ctx lang "lint ctx lang src" src False]
  have ex: "\<exists>a \<in> set (lint ctx lang src). fixer ctx lang (advice_code a) \<noteq> None"
    by simp
  from l f r ap show "fst (private_apply_file_fix (LocalFileMigrator ctx) p st) = Inr True"
    by (simp add: private_apply_file_fix_def)
  from l f r ap
  show "writes (snd (private_apply_file_fix (LocalFileMigrator ctx) p st)) = writes st @ [p]"
    by (simp add: private_apply_file_fix_def)
  from l f ex
  show "\<exists>lang src. extensions (path_suffix p) = Some lang \<and> files st p = Some (Text src) \<and>
         (\<exists>a \<in> set (lint ctx lang src). fixer ctx lang (advice_code a) \<noteq> None)"
    by blast
next
  fix lang src
  assume a: "extensions (path_suffix p) = Some lang \<and> files st p = Some (Text src) \<and>
        (\<exists>a \<in> set (lint ctx lang src). fixer ctx lang (advice_code a) \<noteq> None)"
  obtain fixed applied where
    r: "apply_fixes ctx lang (lint ctx lang src) src False = (fixed, applied)"
    by (cases "apply_fixes ctx lang (lint ctx lang src) src False")
  with a apply_fixes_applied [of ctx lang "lint ctx lang src" src False] have ap: "applied"
    by simp
  from a r ap show "fst (private_apply_file_fix (LocalFileMigrator ctx) p st) = Inr True"
    by (simp add: private_apply_file_fix_def)
  from a r ap
  show "writes (snd (private_apply_file_fix (LocalFileMigrator ctx) p st)) = writes st @ [p]"
    by (simp add: private_apply_file_fix_def)
qed

text \<open>A text note is left alone; so are an undecodable SQL file and a Python file whose
  advices have no fixer; with a fixer the Python file is written once.\<close>

theorem file_written_only_when_fixed_witness:
  "path_suffix (Path ''/repo/notes.txt'') \<notin> {''.py'', ''.sql''} \<and>
   private_apply_file_fix (LocalFileMigrator fixing_context) (Path ''/repo/notes.txt'') some_files
     = (Inr False, some_files) \<and>
   path_suffix (Path ''/repo/bad.sql'') \<in> {''.py'', ''.sql''} \<and>
   files some_files (Path ''/repo/bad.sql'') = Some Undecodable \<and>
   private_apply_file_fix (LocalFileMigrator fixing_context) (Path ''/repo/bad.sql'') some_files
     = (Inr False, some_files) \<and>
   extensions (path_suffix (Path ''/repo/job.py'')) = Some PYTHON \<and>
   files some_files (Path ''/repo/job.py'') = Some (Text ''select 1'') \<and>
   private_apply_file_fix (LocalFileMigrator advising_context) (Path ''/repo/job.py'') some_files
     = (Inr False, some_files) \<and>
   fst (private_apply_file_fix (LocalFileMigrator fixing_context) (Path ''/repo/job.py'')
          some_files) = Inr True \<and>
   writes (snd (private_apply_file_fix (LocalFileMigrator fixing_context) (Path ''/repo/job.py'')
          some_files)) = [Path ''/repo/job.py'']"
proof -
  have s1: "path_suffix (Path ''/repo/notes.txt'') \<notin> {''.py'', ''.sql''}"
    and s2: "path_suffix (Path ''/repo/bad.sql'') \<in> {''.py'', ''.sql''}"
    and s3: "extensions (path_suffix (Path ''/repo/job.py'')) = Some PYTHON"
    by code_simp+
  have f2: "files some_files (Path ''/repo/bad.sql'') = Some Undecodable"
    and f3: "files some_files (Path ''/repo/job.py'') = Some (Text ''select 1'')"
    by code_simp+
  have w: "writes some_files = []"
    by (simp add: some_files_def)
  have n: "\<forall>a \<in> set (lint advising_context PYTHON ''select 1'').
             fixer advising_context PYTHON (advice_code a) = None"
    by (simp add: advising_context_def)
  have y: "\<exists>a \<in> set (lint fixing_context PYTHON ''select 1'').
             fixer fixing_context PYTHON (advice_code a) \<noteq> None"
    by (simp add: fixing_context_def)
  note t1 = file_written_only_when_fixed [of "Path ''/repo/notes.txt''" fixing_context some_files]
  note t2 = file_written_only_when_fixed [of "Path ''/repo/bad.sql''" fixing_context some_files]
  note t3 = file_written_only_when_fixed [of "Path ''/repo/job.py''" advising_context some_files]
  note t4 = file_written_only_when_fixed [of "Path ''/repo/job.py''" fixing_context some_files]
  from t1 s1 have w1: "private_apply_file_fix (LocalFileMigrator fixing_context)
      (Path ''/repo/notes.txt'') some_files = (Inr False, some_files)"
    by blast
  from t2 s2 f2 have w2: "private_apply_file_fix (LocalFileMigrator fixing_context)
      (Path ''/repo/bad.sql'') some_files = (Inr False, some_files)"
    by blast
  from t3 s3 f3 n have w3: "private_apply_file_fix (LocalFileMigrator advising_context)
      (Path ''/repo/job.py'') some_files = (Inr False, some_files)"
    by blast
  from t4 s3 f3 y have "fst (private_apply_file_fix (LocalFileMigrator fixing_context)
      (Path ''/repo/job.py'') some_files) = Inr True \<and>
    writes (snd (private_apply_file_fix (LocalFileMigrator fixing_context) (Path ''/repo/job.py'')
      some_files)) = writes some_files @ [Path ''/repo/job.py'']"
    by blast
  with w have w4: "fst (private_apply_file_fix (LocalFileMigrator fixing_context)
      (Path ''/repo/job.py'') some_files) = Inr True \<and>
    writes (snd (private_apply_file_fix (LocalFileMigrator fixing_context) (Path ''/repo/job.py'')
      some_files)) = [Path ''/repo/job.py'']"
    by simp
  from s1 s2 s3 f2 f3 w1 w2 w3 w4 show ?thesis by blast
qed

section \<open>The sequencer on the cyclic scenario\<close>

text \<open>
  C6. On the graph with root requiring a and b, a requiring b and b requiring a,
  registered after the root, \<open>generate_steps\<close> returns exactly three steps, one per
  artifact and each artifact once, numbered 1 to 3, the root being the last. The same
  holds when the edges are registered in depth-first order.
\<close>

theorem cyclic_dependencies_give_three_steps:
  "length (generate_steps cyclic_registration) = 3 \<and>
   map object_id (generate_steps cyclic_registration) = [''a.py'', ''b.py'', ''root.py''] \<and>
   distinct (map object_id (generate_steps cyclic_registration)) \<and>
   object_id (last (generate_steps cyclic_registration)) = ''root.py'' \<and>
   map step_number (generate_steps cyclic_registration) = [1, 2, 3] \<and>
   map object_id (generate_steps cyclic_registration_depth_first)
     = [''a.py'', ''b.py'', ''root.py''] \<and>
   map step_number (generate_steps cyclic_registration_depth_first) = [1, 2, 3]"
  by code_simp

end
